theory Spec2Isabelle
  imports Complex_Main
begin

section \<open>Values exchanged over HTTP\<close>

subsection \<open>Decoded values\<close>

text \<open>
  The gateway (\<^verbatim>\<open>server/index.js\<close>) and the React client exchange JSON documents.
  A decoded document (\<^verbatim>\<open>response.data\<close> of axios, the argument of \<^verbatim>\<open>res.json\<close>) is a
  JavaScript value of the following type. A number is a double with an integral value;
  \<open>JInf True\<close> and \<open>JInf False\<close> are \<^verbatim>\<open>Infinity\<close> and \<^verbatim>\<open>-Infinity\<close>, which
  \<^verbatim>\<open>JSON.parse\<close> gives for a literal beyond the range of the doubles. An object lists
  its own properties in the order in which JavaScript enumerates them.
\<close>

datatype json =
    JNull
  | JBool bool
  | JNum int
  | JInf bool
  | JStr string
  | JArr "json list"
  | JObj "(string \<times> json) list"

text \<open>
  Property access \<^verbatim>\<open>v.k\<close>: \<open>None\<close> is JavaScript's \<^verbatim>\<open>undefined\<close>. Reading a
  property of a string, number or boolean gives \<^verbatim>\<open>undefined\<close> for the keys used in this
  program; reading a property of \<^verbatim>\<open>null\<close> throws and is handled where it can happen.
\<close>

fun field :: "string \<Rightarrow> json \<Rightarrow> json option" where
  "field k (JObj kvs) = map_of kvs k"
| "field k _ = None"

text \<open>JavaScript truthiness, as used by \<^verbatim>\<open>if (x)\<close>, \<^verbatim>\<open>!x\<close>, \<^verbatim>\<open>&&\<close> and \<^verbatim>\<open>||\<close>.\<close>

fun truthy :: "json \<Rightarrow> bool" where
  "truthy JNull = False"
| "truthy (JBool b) = b"
| "truthy (JNum n) = (n \<noteq> 0)"
| "truthy (JInf _) = True"
| "truthy (JStr s) = (s \<noteq> [])"
| "truthy (JArr _) = True"
| "truthy (JObj _) = True"

definition truthy_opt :: "json option \<Rightarrow> bool" where
  "truthy_opt v = (case v of None \<Rightarrow> False | Some j \<Rightarrow> truthy j)"

text \<open>A string-valued form field (\<^verbatim>\<open>req.body.query\<close>): missing or a string.\<close>

definition truthy_str :: "string option \<Rightarrow> bool" where
  "truthy_str v = (case v of None \<Rightarrow> False | Some s \<Rightarrow> s \<noteq> [])"

subsection \<open>Documents on the wire\<close>













subsection \<open>Responses\<close>

text \<open>
  A response as the gateway builds it: the status and the argument of \<^verbatim>\<open>res.json\<close>.
  HTTP status codes, sizes in bytes and durations in milliseconds are integers.
\<close>

record response =
  status :: int
  body :: json

text \<open>\<^verbatim>\<open>res.status(c).json({ error: msg })\<close>\<close>

definition error_response :: "int \<Rightarrow> string \<Rightarrow> response" where
  "error_response c msg = \<lparr>status = c, body = JObj [(''error'', JStr msg)]\<rparr>"



section \<open>Node library functions used by the gateway\<close>

text \<open>
  The gateway relies on Node's \<^verbatim>\<open>path\<close> module and on the packages multer and axios.
  Their behaviour is written here as functions, from their published semantics, so that
  the code of \<^verbatim>\<open>server/index.js\<close> can be read against them.
\<close>

subsection \<open>\<^verbatim>\<open>String.prototype.toLowerCase\<close>\<close>

text \<open>
  On the ASCII letters, which are the only characters of the allowed extensions. No
  character outside \<open>A\<close>..\<open>Z\<close> is mapped by JavaScript to one of the letters
  \<open>c\<close>, \<open>s\<close>, \<open>v\<close>, \<open>x\<close>, \<open>l\<close>.
\<close>

definition lower_char :: "char \<Rightarrow> char" where
  "lower_char c =
     (let n = (of_char c :: nat) in if 65 \<le> n \<and> n \<le> 90 then char_of (n + 32) else c)"

definition toLowerCase :: "string \<Rightarrow> string" where
  "toLowerCase s = map lower_char s"

subsection \<open>\<^verbatim>\<open>path.extname\<close> (POSIX)\<close>

text \<open>
  Node scans the path from its last character to its first, keeping five variables.
  The scan stops (\<^verbatim>\<open>break\<close>) at the first separator found after a character that is
  not a separator.
\<close>

record ext_state =
  startDot :: int
  startPart :: int
  end_pos :: int
  matchedSlash :: bool
  preDotState :: int

definition ext_init :: ext_state where
  "ext_init = \<lparr>startDot = -1, startPart = 0, end_pos = -1, matchedSlash = True, preDotState = 0\<rparr>"

text \<open>\<open>ext_scan path n s\<close> runs the loop body for \<open>i = n - 1\<close> down to \<open>0\<close>.\<close>

fun ext_scan :: "string \<Rightarrow> nat \<Rightarrow> ext_state \<Rightarrow> ext_state" where
  "ext_scan path 0 s = s"
| "ext_scan path (Suc i) s =
     (let code = path ! i in
      if code = CHR ''/'' then
        (if \<not> matchedSlash s then s\<lparr>startPart := int i + 1\<rparr>
         else ext_scan path i s)
      else
        (let s1 = (if end_pos s = -1 then s\<lparr>end_pos := int i + 1, matchedSlash := False\<rparr> else s);
             s2 = (if code = CHR ''.'' then
                     (if startDot s1 = -1 then s1\<lparr>startDot := int i\<rparr>
                      else if preDotState s1 \<noteq> 1 then s1\<lparr>preDotState := 1\<rparr>
                      else s1)
                   else if startDot s1 \<noteq> -1 then s1\<lparr>preDotState := -1\<rparr>
                   else s1)
         in ext_scan path i s2))"

definition extname :: "string \<Rightarrow> string" where
  "extname path =
     (let s = ext_scan path (length path) ext_init in
      if startDot s = -1 \<or> end_pos s = -1 \<or> preDotState s = 0 \<or>
         (preDotState s = 1 \<and> startDot s = end_pos s - 1 \<and> startDot s = startPart s + 1)
      then []
      else take (nat (end_pos s - startDot s)) (drop (nat (startDot s)) path))"


section \<open>The gateway: \<^verbatim>\<open>server/index.js\<close>\<close>

subsection \<open>Requests\<close>

text \<open>
  A multipart request to \<^verbatim>\<open>POST /api/generate-graph\<close> carries at most one file part
  and the text field \<^verbatim>\<open>query\<close>. \<open>size\<close> is the number of bytes of the file's content.
\<close>

record file_part =
  fieldname :: string
  originalname :: string
  mimetype :: string
  size :: int

record request =
  file_part :: "file_part option"
  body_query :: "string option"

text \<open>\<^verbatim>\<open>req.file\<close> once multer has stored the upload.\<close>

record uploaded_file =
  file_originalname :: string
  file_mimetype :: string
  file_path :: string
  file_size :: int

text \<open>
  What the handler cannot decide by itself: the two identifiers drawn by \<^verbatim>\<open>uuidv4()\<close>,
  the environment variable \<^verbatim>\<open>PYTHON_SERVICE_URL\<close>, the directory of the uploads, the
  outcome of removing a file from it (\<open>None\<close> when the removal succeeds, the error
  code otherwise) and the behaviour of the Python service (below).
\<close>

datatype downstream =
    Replies int int json
  | Fails string
  | Silent

text \<open>
  The call as axios sees it. \<open>Replies d st b\<close>: after \<open>d\<close> milliseconds axios holds
  a final response with HTTP status \<open>st\<close> and decoded body \<open>b\<close>. \<open>Fails c\<close>: the
  call fails with the error code \<open>c\<close> and no response (\<^verbatim>\<open>ECONNREFUSED\<close>,
  \<^verbatim>\<open>ECONNRESET\<close>, ...). \<open>Silent\<close>: no final response ever comes.
\<close>

record env =
  file_uuid :: string
  session_uuid :: string
  PYTHON_SERVICE_URL :: "string option"
  uploadsDir :: string
  unlink_error :: "string option"
  python :: downstream

subsection \<open>The upload middleware\<close>

datatype upload_error =
    MulterError string
  | PlainError string

definition allowedMimes :: "string list" where
  "allowedMimes =
     [''text/csv'',
      ''application/vnd.ms-excel'',
      ''application/vnd.openxmlformats-officedocument.spreadsheetml.sheet'']"

definition allowedExtensions :: "string list" where
  "allowedExtensions = [''.csv'', ''.xls'', ''.xlsx'']"

text \<open>\<open>Inr b\<close> is \<^verbatim>\<open>cb(null, b)\<close>, \<open>Inl e\<close> is \<^verbatim>\<open>cb(e, false)\<close>.\<close>

definition fileFilter :: "file_part \<Rightarrow> upload_error + bool" where
  "fileFilter file =
     (let fileExtension = toLowerCase (extname (originalname file)) in
      if mimetype file \<in> set allowedMimes \<and> fileExtension \<in> set allowedExtensions
      then Inr True
      else Inl (PlainError ''Only CSV and Excel files are allowed!''))"

definition fileSize_limit :: int where
  "fileSize_limit = 10 * 1024 * 1024"

text \<open>\<^verbatim>\<open>storage.filename\<close> and \<^verbatim>\<open>storage.destination\<close>: the path of the stored upload.\<close>

definition storage_path :: "env \<Rightarrow> file_part \<Rightarrow> string" where
  "storage_path e file = uploadsDir e @ ''/'' @ file_uuid e @ extname (originalname file)"

text \<open>
  What happens during a request, in order. \<open>WriteFile p\<close> stores an upload.
  \<open>Unlink p\<close> is the call \<^verbatim>\<open>fs.unlink(p, cb)\<close>: it only issues the removal, which
  is asynchronous. \<open>Unlinked p err\<close> is its completion, when \<^verbatim>\<open>cb(err)\<close> runs: the
  removal is counted there, and only when \<open>err\<close> is \<open>None\<close>. \<open>CallPython\<close> is one
  HTTP request to the Python service, \<open>Send\<close> is the response handed to Express for
  the client.
\<close>

record python_call =
  call_url :: string
  call_filename :: string
  call_contentType :: string
  call_stream :: string
  call_query :: string
  call_session_id :: string
  call_timeout :: int

datatype effect =
    WriteFile string
  | Unlink string
  | Unlinked string "string option"
  | CallPython python_call
  | Send response

text \<open>
  \<^verbatim>\<open>upload.single('file')\<close> of multer with the disk storage, the filter and the limit
  above. A part without a file name is skipped; a file part in another field is refused
  with \<^verbatim>\<open>LIMIT_UNEXPECTED_FILE\<close> before the filter runs; a refused file is not written;
  a file longer than the limit is written up to the limit and refused with
  \<^verbatim>\<open>LIMIT_FILE_SIZE\<close>, and multer waits for the removal of what was written before it
  hands the error on. The result is the effects on the uploads directory and either the
  error handed to the error middleware or \<^verbatim>\<open>req.file\<close>.
\<close>

definition upload_single :: "env \<Rightarrow> request \<Rightarrow> effect list \<times> (upload_error + uploaded_file option)" where
  "upload_single e req =
     (case file_part req of
        None \<Rightarrow> ([], Inr None)
      | Some file \<Rightarrow>
          if originalname file = [] then ([], Inr None)
          else if fieldname file \<noteq> ''file'' then ([], Inl (MulterError ''LIMIT_UNEXPECTED_FILE''))
          else
            (case fileFilter file of
               Inl err \<Rightarrow> ([], Inl err)
             | Inr includeFile \<Rightarrow>
                 if \<not> includeFile then ([], Inr None)
                 else if size file > fileSize_limit
                 then ([WriteFile (storage_path e file), Unlink (storage_path e file),
                        Unlinked (storage_path e file) (unlink_error e)],
                       Inl (MulterError ''LIMIT_FILE_SIZE''))
                 else ([WriteFile (storage_path e file)],
                       Inr (Some \<lparr>file_originalname = originalname file,
                                   file_mimetype = mimetype file,
                                   file_path = storage_path e file,
                                   file_size = size file\<rparr>))))"

text \<open>
  \<^verbatim>\<open>error.message\<close>: multer derives the message of a \<^verbatim>\<open>MulterError\<close> from its code.
\<close>

definition error_message :: "upload_error \<Rightarrow> string" where
  "error_message err =
     (case err of
        PlainError msg \<Rightarrow> msg
      | MulterError code \<Rightarrow>
          if code = ''LIMIT_FILE_SIZE'' then ''File too large''
          else if code = ''LIMIT_UNEXPECTED_FILE'' then ''Unexpected field''
          else [])"

text \<open>The error-handling middleware (\<^verbatim>\<open>app.use((error, req, res, next) => ...)\<close>).\<close>

definition error_middleware :: "upload_error \<Rightarrow> response" where
  "error_middleware err =
     (if (case err of MulterError code \<Rightarrow> code = ''LIMIT_FILE_SIZE'' | PlainError _ \<Rightarrow> False)
      then error_response 400 ''File size too large. Maximum 10MB allowed.''
      else if error_message err = ''Only CSV and Excel files are allowed!''
      then error_response 400 ''Only CSV and Excel files are allowed!''
      else error_response 500 ''Internal server error'')"

subsection \<open>The call to the Python service\<close>

text \<open>
  \<^verbatim>\<open>axios.post(url, data, { timeout: t })\<close>: the promise resolves with a response whose
  status is 2xx, and rejects otherwise: with the response when there is one, with an
  error code when there is none. A request that takes longer than \<open>t\<close> milliseconds is
  aborted with the code \<^verbatim>\<open>ECONNABORTED\<close>.
\<close>

datatype axios_result =
    Resolved int json
  | RejectedResponse int json
  | RejectedCode string

definition axios_post :: "int \<Rightarrow> downstream \<Rightarrow> axios_result" where
  "axios_post t d =
     (case d of
        Replies delay st b \<Rightarrow>
          if delay > t then RejectedCode ''ECONNABORTED''
          else if 200 \<le> st \<and> st < 300 then Resolved st b
          else RejectedResponse st b
      | Fails code \<Rightarrow> RejectedCode code
      | Silent \<Rightarrow> RejectedCode ''ECONNABORTED'')"



definition gateway_timeout :: int where
  "gateway_timeout = 300000"

text \<open>\<^verbatim>\<open>process.env.PYTHON_SERVICE_URL || 'http://localhost:8000'\<close>\<close>

definition pythonServiceUrl :: "env \<Rightarrow> string" where
  "pythonServiceUrl e =
     (case PYTHON_SERVICE_URL e of
        None \<Rightarrow> ''http://localhost:8000''
      | Some u \<Rightarrow> if u = [] then ''http://localhost:8000'' else u)"

subsection \<open>The handler of \<^verbatim>\<open>POST /api/generate-graph\<close>\<close>

text \<open>
  The effects are listed in the order in which they happen: the request to the Python
  service, then the call \<^verbatim>\<open>fs.unlink(filePath, ...)\<close>, then the response. The handler
  does not wait for the removal: its callback, which only logs an error, runs in a later
  turn of the event loop, after the synchronous \<^verbatim>\<open>res.json\<close> that follows the call.
  The outer \<^verbatim>\<open>catch\<close> (500, \<^verbatim>\<open>Internal server error\<close>) has no branch here: nothing
  that the model describes throws outside the inner \<^verbatim>\<open>try\<close>.
\<close>

definition handler :: "env \<Rightarrow> uploaded_file option \<Rightarrow> string option \<Rightarrow> effect list" where
  "handler e file query =
     (case file of
        None \<Rightarrow> [Send (error_response 400 ''No file uploaded'')]
      | Some f \<Rightarrow>
          if \<not> truthy_str query then [Send (error_response 400 ''No query provided'')]
          else
            (let filePath = file_path f;
                 call = \<lparr>call_url = pythonServiceUrl e @ ''/generate-graph'',
                         call_filename = file_originalname f,
                         call_contentType = file_mimetype f,
                         call_stream = filePath,
                         call_query = (case query of Some q \<Rightarrow> q | None \<Rightarrow> []),
                         call_session_id = session_uuid e,
                         call_timeout = gateway_timeout\<rparr>
             in CallPython call #
                (case axios_post (call_timeout call) (python e) of
                   Resolved st data \<Rightarrow>
                     [Unlink filePath, Send \<lparr>status = 200, body = data\<rparr>]
                 | RejectedResponse st data \<Rightarrow>
                     [Unlink filePath, Send \<lparr>status = st, body = data\<rparr>]
                 | RejectedCode code \<Rightarrow>
                     if code = ''ECONNREFUSED''
                     then [Unlink filePath,
                           Send (error_response 503 ''Graph generation service unavailable'')]
                     else [Unlink filePath,
                           Send (error_response 500 ''Failed to start graph generation service'')]) @
                [Unlinked filePath (unlink_error e)]))"

text \<open>
  The route: the upload middleware, then the handler or the error middleware. The
  application-wide middleware registered before the route (helmet, cors, the rate
  limiter, the body parsers) is not part of it: the route is what a request meets once
  they have let it through.
\<close>

definition generate_graph :: "env \<Rightarrow> request \<Rightarrow> effect list" where
  "generate_graph e req =
     (case upload_single e req of
        (fx, Inl err) \<Rightarrow> fx @ [Send (error_middleware err)]
      | (fx, Inr file) \<Rightarrow> fx @ handler e file (body_query req))"

subsection \<open>Reading a trace\<close>

fun is_call :: "effect \<Rightarrow> bool" where
  "is_call (CallPython _) = True"
| "is_call _ = False"

definition engine_calls :: "effect list \<Rightarrow> nat" where
  "engine_calls tr = length (filter is_call tr)"

fun sent :: "effect list \<Rightarrow> response list" where
  "sent [] = []"
| "sent (Send r # tr) = r # sent tr"
| "sent (_ # tr) = sent tr"

text \<open>
  The uploads directory as the set of the paths of its files. A removal changes it where
  it completes, and only when it succeeds.
\<close>

fun apply_effect :: "string set \<Rightarrow> effect \<Rightarrow> string set" where
  "apply_effect fs (WriteFile p) = insert p fs"
| "apply_effect fs (Unlinked p None) = fs - {p}"
| "apply_effect fs _ = fs"

definition run_fs :: "string set \<Rightarrow> effect list \<Rightarrow> string set" where
  "run_fs fs tr = foldl apply_effect fs tr"




section \<open>The client\<close>

subsection \<open>The \<^verbatim>\<open>App\<close> component: the state and its handlers\<close>

text \<open>
  The text of a query is a JavaScript string, a sequence of UTF-16 code units: what
  \<^verbatim>\<open>String.prototype.trim\<close> removes is defined on code units beyond ASCII.
\<close>

type_synonym js_string = "int list"

text \<open>
  The five \<^verbatim>\<open>useState\<close> cells of \<^verbatim>\<open>App\<close>. \<open>None\<close> is \<^verbatim>\<open>null\<close>. A selected file is
  represented by its name.
\<close>

record app_state =
  selectedFile :: "string option"
  query :: js_string
  graphResult :: "json option"
  isLoading :: bool
  chatbotResponse :: "json option"









text \<open>The callbacks that \<^verbatim>\<open>App\<close> hands to its children, as events.\<close>

datatype app_event =
    FileSelect string
  | QuerySubmit js_string
  | GraphGenerated json
  | LoadingChange bool
  | ChatbotResponse json
  | SuggestionClick js_string
  | ResetForm



subsection \<open>\<^verbatim>\<open>QueryInput.tsx\<close>: what the client does with the gateway's answer\<close>

text \<open>
  The client's own \<^verbatim>\<open>axios.post\<close> to the gateway: the promise resolves with the data of
  a 2xx response; a response with another status, or no response within the client's
  timeout, rejects it.
\<close>

datatype client_result =
    Data json
  | Rejected "response option"

definition client_receive :: "response \<Rightarrow> client_result" where
  "client_receive r =
     (if 200 \<le> status r \<and> status r < 300 then Data (body r) else Rejected (Some r))"

text \<open>
  The body of the \<^verbatim>\<open>try\<close> of \<^verbatim>\<open>handleSubmit\<close>: the callbacks of \<^verbatim>\<open>App\<close> that it
  invokes for the gateway's answer. Reading a property of \<^verbatim>\<open>null\<close> throws, and the
  \<^verbatim>\<open>catch\<close> invokes no callback.
\<close>

definition dispatch :: "client_result \<Rightarrow> app_event list" where
  "dispatch r =
     (case r of
        Rejected _ \<Rightarrow> []
      | Data d \<Rightarrow>
          if d = JNull then []
          else if truthy_opt (field ''is_chatbot_response'' d) then [ChatbotResponse d]
          else if truthy_opt (field ''success'' d) then [GraphGenerated d]
          else [])"




text \<open>
  \<^verbatim>\<open>generateSmartSuggestions\<close>: the value stored by \<^verbatim>\<open>setSmartSuggestions\<close>, or \<open>None\<close>
  when no file is selected and the function returns at once. \<^verbatim>\<open>v.length\<close> is defined
  for arrays and strings, and for an object with such a key.
\<close>

definition genericSuggestions :: json where
  "genericSuggestions =
     JArr [JStr ''Show me a bar chart of the data'',
           JStr ''Create a line chart showing trends'',
           JStr ''Display a pie chart distribution'',
           JStr ''Generate a scatter plot'']"

fun js_length :: "json \<Rightarrow> json option" where
  "js_length (JArr xs) = Some (JNum (int (length xs)))"
| "js_length (JStr s) = Some (JNum (int (length s)))"
| "js_length (JObj kvs) = map_of kvs ''length''"
| "js_length _ = None"

text \<open>
  \<^verbatim>\<open>x > 0\<close>, for a number, a boolean, \<^verbatim>\<open>null\<close> and \<^verbatim>\<open>undefined\<close>. The length of
  an array or of a string is a number; under the \<^verbatim>\<open>length\<close> key of an object, a
  string or an array, which JavaScript would first convert to a number, counts as not
  positive.
\<close>

fun positive :: "json option \<Rightarrow> bool" where
  "positive (Some (JNum n)) = (n > 0)"
| "positive (Some (JInf b)) = b"
| "positive (Some (JBool b)) = b"
| "positive _ = False"

definition generateSmartSuggestions :: "string option \<Rightarrow> client_result \<Rightarrow> json option" where
  "generateSmartSuggestions selected r =
     (if selected = None then None
      else
        (case r of
           Rejected _ \<Rightarrow> Some genericSuggestions
         | Data d \<Rightarrow>
             if d = JNull then Some genericSuggestions
             else
               (case field ''suggestions'' d of
                  None \<Rightarrow> Some genericSuggestions
                | Some sg \<Rightarrow>
                    if truthy sg \<and> positive (js_length sg) then Some sg
                    else Some genericSuggestions)))"


section \<open>The quality gate of the engine\<close>

text \<open>
  Modelled from the spec: the Python service (\<^verbatim>\<open>python-service/\<close>) that holds the
  engine is not among the sources, so the data model of the quality gate follows
  sections 3 and 4.2 of the specification. Of a column profile, the gate reads the
  semantic type, the count of distinct values and the ratio of nulls.
\<close>

datatype SemanticType = Numeric | Categorical | Temporal | Boolean | TextFree | Unknown

record Column =
  col_name :: string
  col_type :: SemanticType
  cells :: "string option list"

type_synonym Table = "Column list"

record ColumnProfile =
  prof_name :: string
  semanticType :: SemanticType
  distinctCount :: nat
  nullCount :: nat
  nullRatio :: rat

datatype QualityIssue =
    EmptyTable
  | AllColumnsConstant
  | NoSuitableColumn
  | TooManyMissing string rat

text \<open>
  Modelled from the spec: which issues are blocking (\<^verbatim>\<open>TooManyMissing\<close> is the one
  warning).
\<close>

fun is_blocking :: "QualityIssue \<Rightarrow> bool" where
  "is_blocking (TooManyMissing _ _) = False"
| "is_blocking _ = True"

text \<open>
  Modelled from the spec: the configuration of the gate, loaded once: the threshold of
  the null ratio (0.5 unless configured) and, for a query, whether the chart family it
  requests needs a numeric or temporal column.
\<close>

record quality_config =
  null_threshold :: rat
  needs_measure :: "string \<Rightarrow> bool"

text \<open>Modelled from the spec: the number of rows of a table, whose columns have equal length.\<close>

definition row_count :: "Table \<Rightarrow> nat" where
  "row_count t = (case t of [] \<Rightarrow> 0 | c # _ \<Rightarrow> length (cells c))"

text \<open>
  Modelled from the spec: \<^verbatim>\<open>checkQuality\<close>, absent from the sources. The four rules of
  section 4.2, each evaluated independently, in the order of the specification; the
  result is the issues and whether one of them is blocking.
\<close>

definition checkQuality ::
  "quality_config \<Rightarrow> Table \<Rightarrow> ColumnProfile list \<Rightarrow> string \<Rightarrow> QualityIssue list \<times> bool" where
  "checkQuality cfg t ps q =
     (let issues =
            (if row_count t = 0 then [EmptyTable] else []) @
            (if list_all (\<lambda>p. distinctCount p = 1) ps then [AllColumnsConstant] else []) @
            (if \<not> list_ex (\<lambda>p. semanticType p = Numeric \<or> semanticType p = Temporal) ps \<and>
                needs_measure cfg q
             then [NoSuitableColumn] else []) @
            map (\<lambda>p. TooManyMissing (prof_name p) (nullRatio p))
                (filter (\<lambda>p. nullRatio p > null_threshold cfg) ps)
      in (issues, list_ex is_blocking issues))"


section \<open>Example inputs\<close>

definition example_env :: env where
  "example_env =
     \<lparr>file_uuid = ''3f2a'', session_uuid = ''9c01'', PYTHON_SERVICE_URL = None,
      uploadsDir = ''uploads'', unlink_error = None,
      python = Replies 1500 200 (JObj [(''success'', JBool True), (''image'', JStr ''iVBOR'')])\<rparr>"

definition csv_file :: file_part where
  "csv_file = \<lparr>fieldname = ''file'', originalname = ''sales.CSV'', mimetype = ''text/csv'',
               size = 2048\<rparr>"

definition pdf_file :: file_part where
  "pdf_file = \<lparr>fieldname = ''file'', originalname = ''report.pdf'', mimetype = ''text/csv'',
               size = 2048\<rparr>"

definition example_request :: request where
  "example_request = \<lparr>file_part = Some csv_file, body_query = Some ''bar chart of sales by region''\<rparr>"

definition pdf_request :: request where
  "pdf_request = \<lparr>file_part = Some pdf_file, body_query = Some ''bar chart of sales by region''\<rparr>"

definition unavailable_env :: env where
  "unavailable_env = example_env\<lparr>python := Fails ''ECONNREFUSED''\<rparr>"

definition slow_env :: env where
  "slow_env = example_env\<lparr>python := Replies 120000 200 (JObj [(''success'', JBool True)])\<rparr>"

definition silent_env :: env where
  "silent_env = example_env\<lparr>python := Silent\<rparr>"

definition no_query_request :: request where
  "no_query_request = \<lparr>file_part = Some csv_file, body_query = Some []\<rparr>"

definition no_file_request :: request where
  "no_file_request = \<lparr>file_part = None, body_query = Some ''plot this''\<rparr>"

definition example_upload :: uploaded_file where
  "example_upload = \<lparr>file_originalname = ''sales.CSV'', file_mimetype = ''text/csv'',
                      file_path = ''uploads/3f2a.CSV'', file_size = 2048\<rparr>"

definition graph_payload :: json where
  "graph_payload = JObj [(''success'', JBool True), (''chart_type'', JStr ''bar'')]"

definition clarification_payload :: json where
  "clarification_payload =
     JObj [(''is_chatbot_response'', JBool True), (''message'', JStr ''Which columns?''),
           (''suggestions'', JArr [JStr ''Plot revenue by month''])]"

definition constant_profiles :: "ColumnProfile list" where
  "constant_profiles =
     [\<lparr>prof_name = ''region'', semanticType = Categorical, distinctCount = 1, nullCount = 0, nullRatio = 0\<rparr>,
      \<lparr>prof_name = ''sales'', semanticType = Numeric, distinctCount = 1, nullCount = 2, nullRatio = 2 / 3\<rparr>]"

definition constant_table :: Table where
  "constant_table =
     [\<lparr>col_name = ''region'', col_type = Categorical, cells = [Some ''A'', Some ''A'', Some ''A'']\<rparr>,
      \<lparr>col_name = ''sales'', col_type = Numeric, cells = [Some ''10'', None, None]\<rparr>]"

definition default_config :: quality_config where
  "default_config = \<lparr>null_threshold = 1 / 2, needs_measure = (\<lambda>q. True)\<rparr>"










section \<open>Properties of the gateway\<close>

subsection \<open>Traces\<close>

lemma engine_calls_append: "engine_calls (a @ b) = engine_calls a + engine_calls b"
  by (simp add: engine_calls_def)

lemma sent_append: "sent (a @ b) = sent a @ sent b"
  by (induction a rule: sent.induct) auto

subsection \<open>The upload middleware\<close>

text \<open>An upload that reaches the handler as \<^verbatim>\<open>req.file\<close> has passed every check.\<close>

lemma upload_accepted:
  "upload_single e req = (fx, Inr (Some f)) \<Longrightarrow>
     \<exists>p. file_part req = Some p \<and> originalname p \<noteq> [] \<and> fieldname p = ''file'' \<and>
         mimetype p \<in> set allowedMimes \<and>
         toLowerCase (extname (originalname p)) \<in> set allowedExtensions \<and>
         size p \<le> fileSize_limit \<and> fx = [WriteFile (storage_path e p)] \<and>
         file_path f = storage_path e p \<and> file_originalname f = originalname p \<and>
         file_mimetype f = mimetype p"
  by (auto simp: upload_single_def fileFilter_def Let_def
           split: option.splits if_splits sum.splits)

lemma upload_quiet: "upload_single e req = (fx, res) \<Longrightarrow> engine_calls fx = 0 \<and> sent fx = []"
  by (auto simp: upload_single_def engine_calls_def Let_def
           split: option.splits if_splits sum.splits)

lemma error_middleware_status:
  "status (error_middleware err) \<in> {400, 500} \<and>
   (\<exists>msg. body (error_middleware err) = JObj [(''error'', JStr msg)])"
  by (simp add: error_middleware_def error_response_def)

lemma upload_bad_extension:
  assumes "file_part req = Some p"
    and "toLowerCase (extname (originalname p)) \<notin> set allowedExtensions"
  shows "\<exists>fx. upload_single e req = (fx, Inr None) \<or> (\<exists>err. upload_single e req = (fx, Inl err))"
  using assms by (auto simp: upload_single_def fileFilter_def Let_def)

lemma upload_too_large:
  assumes "file_part req = Some p" and "size p > fileSize_limit"
  shows "\<exists>fx. upload_single e req = (fx, Inr None) \<or> (\<exists>err. upload_single e req = (fx, Inl err))"
  using assms by (auto simp: upload_single_def fileFilter_def Let_def)

text \<open>Without a stored upload the route answers with an error and calls nothing.\<close>

lemma not_stored_rejected:
  assumes "upload_single e req = (fx, Inr None) \<or> (\<exists>err. upload_single e req = (fx, Inl err))"
  shows "engine_calls (generate_graph e req) = 0 \<and>
         (\<exists>r. sent (generate_graph e req) = [r] \<and> status r \<in> {400, 500} \<and>
              (\<exists>msg. body r = JObj [(''error'', JStr msg)]))"
  using assms upload_quiet[of e req fx] error_middleware_status
  by (auto simp: generate_graph_def engine_calls_append sent_append handler_def
                 error_response_def engine_calls_def)

text \<open>
  C1. A file part whose lower-cased extension is not \<^verbatim>\<open>.csv\<close>, \<^verbatim>\<open>.xls\<close> or \<^verbatim>\<open>.xlsx\<close>, or
  whose size exceeds 10 * 1024 * 1024 bytes, is answered with one error response (status
  400 or 500, body with an \<^verbatim>\<open>error\<close> field) and the Python service is not called.
  Conversely, a request for which the service is called carries a file with an allowed
  extension and a size of at most 10 * 1024 * 1024 bytes.
\<close>

theorem upload_checks_precede_engine:
  "(file_part req = Some p \<and>
      (toLowerCase (extname (originalname p)) \<notin> set [''.csv'', ''.xls'', ''.xlsx''] \<or>
       size p > 10 * 1024 * 1024)
     \<longrightarrow> engine_calls (generate_graph e req) = 0 \<and>
         (\<exists>r. sent (generate_graph e req) = [r] \<and> status r \<in> {400, 500} \<and>
              (\<exists>msg. body r = JObj [(''error'', JStr msg)]))) \<and>
   (engine_calls (generate_graph e req) \<noteq> 0
     \<longrightarrow> (\<exists>f. file_part req = Some f \<and>
              toLowerCase (extname (originalname f)) \<in> set [''.csv'', ''.xls'', ''.xlsx''] \<and>
              size f \<le> 10 * 1024 * 1024))"
proof (intro conjI impI)
  assume "file_part req = Some p \<and>
      (toLowerCase (extname (originalname p)) \<notin> set [''.csv'', ''.xls'', ''.xlsx''] \<or>
       size p > 10 * 1024 * 1024)"
  then have "\<exists>fx. upload_single e req = (fx, Inr None) \<or>
                  (\<exists>err. upload_single e req = (fx, Inl err))"
    using upload_bad_extension[of req p e] upload_too_large[of req p e]
    by (auto simp: allowedExtensions_def fileSize_limit_def)
  then obtain fx where
    "upload_single e req = (fx, Inr None) \<or> (\<exists>err. upload_single e req = (fx, Inl err))" ..
  from not_stored_rejected[OF this]
  show "engine_calls (generate_graph e req) = 0"
    and "\<exists>r. sent (generate_graph e req) = [r] \<and> status r \<in> {400, 500} \<and>
              (\<exists>msg. body r = JObj [(''error'', JStr msg)])"
    by blast+
next
  assume called: "engine_calls (generate_graph e req) \<noteq> 0"
  obtain fx res where u: "upload_single e req = (fx, res)"
    by (cases "upload_single e req")
  have "\<exists>f. res = Inr (Some f)"
  proof (rule ccontr)
    assume "\<not> (\<exists>f. res = Inr (Some f))"
    then have "upload_single e req = (fx, Inr None) \<or>
               (\<exists>err. upload_single e req = (fx, Inl err))"
      using u by (cases res) auto
    from not_stored_rejected[OF this] called show False by simp
  qed
  then obtain f where "upload_single e req = (fx, Inr (Some f))"
    using u by blast
  from upload_accepted[OF this]
  show "\<exists>f. file_part req = Some f \<and>
              toLowerCase (extname (originalname f)) \<in> set [''.csv'', ''.xls'', ''.xlsx''] \<and>
              size f \<le> 10 * 1024 * 1024"
    by (auto simp: allowedExtensions_def fileSize_limit_def)
qed

theorem upload_checks_precede_engine_witness:
  "file_part pdf_request = Some pdf_file \<and>
   toLowerCase (extname (originalname pdf_file)) \<notin> set [''.csv'', ''.xls'', ''.xlsx''] \<and>
   engine_calls (generate_graph example_env pdf_request) = 0 \<and>
   engine_calls (generate_graph example_env example_request) \<noteq> 0 \<and>
   (\<exists>f. file_part example_request = Some f \<and>
        toLowerCase (extname (originalname f)) \<in> set [''.csv'', ''.xls'', ''.xlsx''] \<and>
        size f \<le> 10 * 1024 * 1024)"
proof -
  have h1: "file_part pdf_request = Some pdf_file"
    by (simp add: pdf_request_def)
  have h2: "toLowerCase (extname (originalname pdf_file)) \<notin> set [''.csv'', ''.xls'', ''.xlsx'']"
    by code_simp
  have h3: "engine_calls (generate_graph example_env example_request) \<noteq> 0"
    by code_simp
  show ?thesis
    using h1 h2 h3 upload_checks_precede_engine[of pdf_request pdf_file example_env]
      upload_checks_precede_engine[of example_request pdf_file example_env]
    by blast
qed

subsection \<open>The handler\<close>

text \<open>The trace of a request that reaches the call.\<close>

lemma generate_graph_called:
  assumes "upload_single e req = (fx, Inr (Some f))" and "truthy_str (body_query req)"
  shows "\<exists>call r. generate_graph e req =
             [WriteFile (file_path f), CallPython call, Unlink (file_path f), Send r,
              Unlinked (file_path f) (unlink_error e)] \<and>
           call_timeout call = gateway_timeout \<and>
           r = (case axios_post gateway_timeout (python e) of
                  Resolved st data \<Rightarrow> \<lparr>status = 200, body = data\<rparr>
                | RejectedResponse st data \<Rightarrow> \<lparr>status = st, body = data\<rparr>
                | RejectedCode code \<Rightarrow>
                    if code = ''ECONNREFUSED''
                    then error_response 503 ''Graph generation service unavailable''
                    else error_response 500 ''Failed to start graph generation service'')"
  using assms upload_accepted[OF assms(1)]
  by (auto simp: generate_graph_def handler_def Let_def split: axios_result.splits)


text \<open>
  C9. Without \<^verbatim>\<open>req.file\<close> the handler answers 400 \<^verbatim>\<open>No file uploaded\<close>; with a
  stored file and a missing or empty \<^verbatim>\<open>query\<close> field it answers 400
  \<^verbatim>\<open>No query provided\<close>. The same holds of the whole route, for a request without a
  file part and for a request whose upload was stored, and the Python service is not
  called.
\<close>

theorem missing_file_or_query_is_400:
  "handler e None q = [Send (error_response 400 ''No file uploaded'')] \<and>
   (q = None \<or> q = Some [] \<longrightarrow>
      handler e (Some f) q = [Send (error_response 400 ''No query provided'')]) \<and>
   (file_part req = None \<longrightarrow>
      sent (generate_graph e req) = [error_response 400 ''No file uploaded''] \<and>
      engine_calls (generate_graph e req) = 0) \<and>
   (upload_single e req = (fx, Inr (Some f)) \<and> (body_query req = None \<or> body_query req = Some []) \<longrightarrow>
      sent (generate_graph e req) = [error_response 400 ''No query provided''] \<and>
      engine_calls (generate_graph e req) = 0)"
proof (intro conjI impI)
  show "handler e None q = [Send (error_response 400 ''No file uploaded'')]"
    by (simp add: handler_def)
  show "handler e (Some f) q = [Send (error_response 400 ''No query provided'')]"
    if "q = None \<or> q = Some []"
    using that by (auto simp: handler_def truthy_str_def)
  show "sent (generate_graph e req) = [error_response 400 ''No file uploaded'']"
    and "engine_calls (generate_graph e req) = 0" if "file_part req = None"
    using that by (simp_all add: generate_graph_def upload_single_def handler_def engine_calls_def)
  assume a: "upload_single e req = (fx, Inr (Some f)) \<and> (body_query req = None \<or> body_query req = Some [])"
  then have fx: "engine_calls fx = 0 \<and> sent fx = []"
    using upload_quiet by blast
  from a have h: "handler e (Some f) (body_query req) = [Send (error_response 400 ''No query provided'')]"
    by (auto simp: handler_def truthy_str_def)
  show "sent (generate_graph e req) = [error_response 400 ''No query provided'']"
    using a fx h by (simp add: generate_graph_def sent_append)
  show "engine_calls (generate_graph e req) = 0"
    using a fx h by (simp add: generate_graph_def engine_calls_append) (simp add: engine_calls_def)
qed

theorem missing_file_or_query_is_400_witness:
  "file_part no_file_request = None \<and>
   sent (generate_graph example_env no_file_request) = [error_response 400 ''No file uploaded''] \<and>
   body_query no_query_request = Some [] \<and>
   sent (generate_graph example_env no_query_request) = [error_response 400 ''No query provided''] \<and>
   engine_calls (generate_graph example_env no_query_request) = 0"
proof -
  have h1: "file_part no_file_request = None"
    by (simp add: no_file_request_def)
  have h2: "body_query no_query_request = Some []"
    by (simp add: no_query_request_def)
  have h3: "upload_single example_env no_query_request = ([WriteFile ''uploads/3f2a.CSV''], Inr (Some example_upload))"
    by code_simp
  show ?thesis
    using h1 h2 h3
      missing_file_or_query_is_400[of example_env "Some []" example_upload no_file_request "[]"]
      missing_file_or_query_is_400[of example_env "Some []" example_upload no_query_request "[WriteFile ''uploads/3f2a.CSV'']"]
    by simp
qed


subsection \<open>Decoding and encoding the answer of the service\<close>











text \<open>
  C6. Every request makes at most one call to the Python service. When the call of a
  request that reaches it does not resolve (error response, timeout, refused
  connection, any transport error), the trace holds exactly one call, and the one
  response sent has a status outside 2xx.
\<close>

theorem downstream_called_at_most_once:
  "engine_calls (generate_graph e req) \<le> 1 \<and>
   (upload_single e req = (fx, Inr (Some f)) \<and> truthy_str (body_query req) \<and>
    (\<forall>st b. axios_post gateway_timeout (python e) \<noteq> Resolved st b) \<longrightarrow>
      engine_calls (generate_graph e req) = 1 \<and>
      (\<exists>r. sent (generate_graph e req) = [r] \<and> \<not> (200 \<le> status r \<and> status r < 300) ))"
proof (intro conjI impI)
  obtain fx' res where u: "upload_single e req = (fx', res)"
    by (cases "upload_single e req")
  have "engine_calls (handler e fl q) \<le> 1" for fl q
    by (auto simp: handler_def engine_calls_def Let_def split: option.splits axios_result.splits)
  then show "engine_calls (generate_graph e req) \<le> 1"
    using u upload_quiet[OF u]
    by (cases res) (auto simp: generate_graph_def engine_calls_append engine_calls_def)
next
  assume a: "upload_single e req = (fx, Inr (Some f)) \<and> truthy_str (body_query req) \<and>
    (\<forall>st b. axios_post gateway_timeout (python e) \<noteq> Resolved st b)"
  then obtain call r where
    tr: "generate_graph e req =
           [WriteFile (file_path f), CallPython call, Unlink (file_path f), Send r,
            Unlinked (file_path f) (unlink_error e)]"
    and r: "r = (case axios_post gateway_timeout (python e) of
                  Resolved st data \<Rightarrow> \<lparr>status = 200, body = data\<rparr>
                | RejectedResponse st data \<Rightarrow> \<lparr>status = st, body = data\<rparr>
                | RejectedCode code \<Rightarrow>
                    if code = ''ECONNREFUSED''
                    then error_response 503 ''Graph generation service unavailable''
                    else error_response 500 ''Failed to start graph generation service'')"
    using generate_graph_called[of e req fx f] by blast
  show "engine_calls (generate_graph e req) = 1"
    by (simp add: tr engine_calls_def)
  have "\<not> (200 \<le> status r \<and> status r < 300)"
  proof (cases "axios_post gateway_timeout (python e)")
    case (Resolved st b)
    with a show ?thesis by blast
  next
    case (RejectedResponse st b)
    then have "\<not> (200 \<le> st \<and> st < 300)"
      by (auto simp: axios_post_def split: downstream.splits if_splits)
    with RejectedResponse r show ?thesis by simp
  next
    case (RejectedCode c)
    with r show ?thesis by (simp add: error_response_def)
  qed
  then show "\<exists>r. sent (generate_graph e req) = [r] \<and> \<not> (200 \<le> status r \<and> status r < 300)"
    by (simp add: tr)
qed

theorem downstream_called_at_most_once_witness:
  "(\<forall>st b. axios_post gateway_timeout (python unavailable_env) \<noteq> Resolved st b) \<and>
   engine_calls (generate_graph unavailable_env example_request) = 1 \<and>
   (\<exists>r. sent (generate_graph unavailable_env example_request) = [r] \<and>
        \<not> (200 \<le> status r \<and> status r < 300))"
proof -
  have s: "upload_single unavailable_env example_request =
             ([WriteFile ''uploads/3f2a.CSV''], Inr (Some example_upload))"
    by code_simp
  have q: "truthy_str (body_query example_request)"
    by code_simp
  have n: "\<forall>st b. axios_post gateway_timeout (python unavailable_env) \<noteq> Resolved st b"
    by (simp add: unavailable_env_def axios_post_def)
  show ?thesis
    using s q n downstream_called_at_most_once[of unavailable_env example_request
        "[WriteFile ''uploads/3f2a.CSV'']" example_upload]
    by blast
qed


text \<open>
  C5. When the call fails without a response (refused connection or another transport
  error), the gateway answers 503 or 500 with a body that is exactly an \<^verbatim>\<open>error\<close>
  field: it carries no \<^verbatim>\<open>is_chatbot_response\<close>, and the client's \<^verbatim>\<open>handleSubmit\<close>
  records neither a clarification nor a graph for it.
\<close>

theorem transport_failure_is_service_failure:
  assumes "upload_single e req = (fx, Inr (Some f))" and "truthy_str (body_query req)"
    and "axios_post gateway_timeout (python e) = RejectedCode c"
  shows "\<exists>r msg. sent (generate_graph e req) = [r] \<and> status r \<in> {500, 503} \<and>
           body r = JObj [(''error'', JStr msg)] \<and>
           field ''is_chatbot_response'' (body r) = None \<and>
           dispatch (client_receive r) = []"
proof -
  obtain call r where
    tr: "generate_graph e req =
           [WriteFile (file_path f), CallPython call, Unlink (file_path f), Send r,
            Unlinked (file_path f) (unlink_error e)]"
    and r: "r = (if c = ''ECONNREFUSED''
                 then error_response 503 ''Graph generation service unavailable''
                 else error_response 500 ''Failed to start graph generation service'')"
    using generate_graph_called[OF assms(1,2)] assms(3) by auto
  have "status r \<in> {500, 503}"
    and "\<exists>msg. body r = JObj [(''error'', JStr msg)]"
    and "field ''is_chatbot_response'' (body r) = None"
    and "dispatch (client_receive r) = []"
    using r by (simp_all add: error_response_def client_receive_def dispatch_def)
  then show ?thesis
    using tr by auto
qed

theorem transport_failure_is_service_failure_witness:
  "axios_post gateway_timeout (python unavailable_env) = RejectedCode ''ECONNREFUSED'' \<and>
   (\<exists>r msg. sent (generate_graph unavailable_env example_request) = [r] \<and> status r \<in> {500, 503} \<and>
           body r = JObj [(''error'', JStr msg)] \<and>
           field ''is_chatbot_response'' (body r) = None \<and>
           dispatch (client_receive r) = [])"
proof -
  have s: "upload_single unavailable_env example_request =
             ([WriteFile ''uploads/3f2a.CSV''], Inr (Some example_upload))"
    by code_simp
  have q: "truthy_str (body_query example_request)"
    by code_simp
  have n: "axios_post gateway_timeout (python unavailable_env) = RejectedCode ''ECONNREFUSED''"
    by (simp add: unavailable_env_def axios_post_def)
  show ?thesis
    using n transport_failure_is_service_failure[OF s q n] by blast
qed

subsection \<open>The uploads directory\<close>





subsection \<open>The timeout of the call\<close>

text \<open>
  C2, as stated, fails: the timeout of the gateway's call is 300000 ms, not at most
  60000 ms. A service that answers after 120000 ms is waited for, and its answer is passed
  on with status 200.
\<close>

theorem render_timeout_counterexample:
  "\<not> gateway_timeout \<le> 60000 \<and>
   python slow_env = Replies 120000 200 (JObj [(''success'', JBool True)]) \<and>
   generate_graph slow_env example_request =
     [WriteFile ''uploads/3f2a.CSV'',
      CallPython \<lparr>call_url = ''http://localhost:8000/generate-graph'',
                  call_filename = ''sales.CSV'', call_contentType = ''text/csv'',
                  call_stream = ''uploads/3f2a.CSV'',
                  call_query = ''bar chart of sales by region'',
                  call_session_id = ''9c01'', call_timeout = 300000\<rparr>,
      Unlink ''uploads/3f2a.CSV'',
      Send \<lparr>status = 200, body = JObj [(''success'', JBool True)]\<rparr>,
      Unlinked ''uploads/3f2a.CSV'' None]"
proof (intro conjI)
  show "\<not> gateway_timeout \<le> 60000"
    by (simp add: gateway_timeout_def)
  show "python slow_env = Replies 120000 200 (JObj [(''success'', JBool True)])"
    by (simp add: slow_env_def)
  show "generate_graph slow_env example_request =
     [WriteFile ''uploads/3f2a.CSV'',
      CallPython \<lparr>call_url = ''http://localhost:8000/generate-graph'',
                  call_filename = ''sales.CSV'', call_contentType = ''text/csv'',
                  call_stream = ''uploads/3f2a.CSV'',
                  call_query = ''bar chart of sales by region'',
                  call_session_id = ''9c01'', call_timeout = 300000\<rparr>,
      Unlink ''uploads/3f2a.CSV'',
      Send \<lparr>status = 200, body = JObj [(''success'', JBool True)]\<rparr>,
      Unlinked ''uploads/3f2a.CSV'' None]"
    by code_simp
qed


text \<open>
  C2, amended. The call of a request that reaches it is made once, with a timeout of
  300000 ms (five minutes). When the service has not answered within it, the gateway
  answers 500 with the error \<^verbatim>\<open>Failed to start graph generation service\<close>, so every
  such request is answered; an answer that arrives within 300000 ms is passed on.
\<close>

theorem gateway_timeout_five_minutes:
  assumes "upload_single e req = (fx, Inr (Some f))" and "truthy_str (body_query req)"
  shows "(\<exists>call r. generate_graph e req =
             [WriteFile (file_path f), CallPython call, Unlink (file_path f), Send r,
              Unlinked (file_path f) (unlink_error e)] \<and>
             call_timeout call = 300000) \<and>
         (python e = Silent \<or> (python e = Replies d st b \<and> d > 300000) \<longrightarrow>
            sent (generate_graph e req) =
              [error_response 500 ''Failed to start graph generation service'']) \<and>
         (python e = Replies d st b \<and> d \<le> 300000 \<longrightarrow>
            sent (generate_graph e req) = [\<lparr>status = (if 200 \<le> st \<and> st < 300 then 200 else st), body = b\<rparr>])"
proof (intro conjI impI)
  from generate_graph_called[OF assms]
  show "\<exists>call r. generate_graph e req =
             [WriteFile (file_path f), CallPython call, Unlink (file_path f), Send r,
              Unlinked (file_path f) (unlink_error e)] \<and>
             call_timeout call = 300000"
    by (auto simp: gateway_timeout_def)
  show "sent (generate_graph e req) = [error_response 500 ''Failed to start graph generation service'']"
    if "python e = Silent \<or> (python e = Replies d st b \<and> d > 300000)"
    using that generate_graph_called[OF assms]
    by (auto simp: axios_post_def gateway_timeout_def)
  show "sent (generate_graph e req) = [\<lparr>status = (if 200 \<le> st \<and> st < 300 then 200 else st), body = b\<rparr>]"
    if "python e = Replies d st b \<and> d \<le> 300000"
    using that generate_graph_called[OF assms]
    by (auto simp: axios_post_def gateway_timeout_def)
qed

theorem gateway_timeout_five_minutes_witness:
  "python silent_env = Silent \<and>
   sent (generate_graph silent_env example_request) =
     [error_response 500 ''Failed to start graph generation service''] \<and>
   python slow_env = Replies 120000 200 (JObj [(''success'', JBool True)]) \<and>
   sent (generate_graph slow_env example_request) =
     [\<lparr>status = 200, body = JObj [(''success'', JBool True)]\<rparr>]"
proof -
  have s1: "upload_single silent_env example_request =
              ([WriteFile ''uploads/3f2a.CSV''], Inr (Some example_upload))"
    by code_simp
  have s2: "upload_single slow_env example_request =
              ([WriteFile ''uploads/3f2a.CSV''], Inr (Some example_upload))"
    by code_simp
  have q: "truthy_str (body_query example_request)"
    by code_simp
  have p1: "python silent_env = Silent"
    by (simp add: silent_env_def)
  have p2: "python slow_env = Replies 120000 200 (JObj [(''success'', JBool True)])"
    by (simp add: slow_env_def)
  show ?thesis
    using p1 p2 gateway_timeout_five_minutes[OF s1 q, of 0 0 JNull]
      gateway_timeout_five_minutes[OF s2 q, of 120000 200 "JObj [(''success'', JBool True)]"]
    by simp
qed

text \<open>
  A request whose query is missing or empty lies outside C8: the handler returns before
  the inner \<^verbatim>\<open>try\<close>, and the stored upload stays in the directory.
\<close>

lemma stored_upload_stays_without_query:
  assumes "upload_single e req = (fx, Inr (Some f))" and "\<not> truthy_str (body_query req)"
  shows "run_fs fs (generate_graph e req) = insert (file_path f) fs"
  using assms upload_accepted[OF assms(1)]
  by (auto simp: generate_graph_def handler_def run_fs_def)


section \<open>Properties of the client\<close>

subsection \<open>The two results of \<^verbatim>\<open>App\<close>\<close>









subsection \<open>The suggestions of \<^verbatim>\<open>QueryInput\<close>\<close>

text \<open>
  C4, as stated, fails: when the request for suggestions is rejected, the suggestions
  shown are the four generic queries, which name no column of the uploaded data; and a
  response with a single suggestion is shown as it is, one query and not three to five.
\<close>

theorem suggestions_generic_counterexample:
  "generateSmartSuggestions (Some ''sales.csv'') (Rejected None) =
     Some (JArr [JStr ''Show me a bar chart of the data'',
                 JStr ''Create a line chart showing trends'',
                 JStr ''Display a pie chart distribution'',
                 JStr ''Generate a scatter plot'']) \<and>
   generateSmartSuggestions (Some ''sales.csv'') (Data clarification_payload) =
     Some (JArr [JStr ''Plot revenue by month''])"
  by (simp add: generateSmartSuggestions_def genericSuggestions_def clarification_payload_def)


text \<open>
  C4, amended. With a file selected, the suggestions shown are either the
  \<^verbatim>\<open>suggestions\<close> value of the gateway's response or the four fixed generic queries:
  a non-empty \<^verbatim>\<open>suggestions\<close> array of the response is shown as it is, of whatever
  length; a rejected request, a response without \<^verbatim>\<open>suggestions\<close> or with an empty
  array gives the generic queries.
\<close>

theorem suggestions_from_service_or_generic:
  "(\<exists>v. generateSmartSuggestions (Some sel) ans = Some v \<and>
        (v = genericSuggestions \<or> (\<exists>d. ans = Data d \<and> field ''suggestions'' d = Some v))) \<and>
   (ans = Data d \<and> field ''suggestions'' d = Some (JArr (x # xs)) \<longrightarrow>
      generateSmartSuggestions (Some sel) ans = Some (JArr (x # xs))) \<and>
   ((\<exists>r. ans = Rejected r) \<or>
    (ans = Data d \<and> (field ''suggestions'' d = None \<or> field ''suggestions'' d = Some (JArr []))) \<longrightarrow>
      generateSmartSuggestions (Some sel) ans = Some genericSuggestions) \<and>
   genericSuggestions =
     JArr [JStr ''Show me a bar chart of the data'',
           JStr ''Create a line chart showing trends'',
           JStr ''Display a pie chart distribution'',
           JStr ''Generate a scatter plot'']"
proof (intro conjI impI)
  show "\<exists>v. generateSmartSuggestions (Some sel) ans = Some v \<and>
        (v = genericSuggestions \<or> (\<exists>d. ans = Data d \<and> field ''suggestions'' d = Some v))"
    by (auto simp: generateSmartSuggestions_def split: client_result.splits option.splits)
  show "generateSmartSuggestions (Some sel) ans = Some (JArr (x # xs))"
    if "ans = Data d \<and> field ''suggestions'' d = Some (JArr (x # xs))"
    using that by (cases d) (auto simp: generateSmartSuggestions_def)
  show "generateSmartSuggestions (Some sel) ans = Some genericSuggestions"
    if "(\<exists>r. ans = Rejected r) \<or>
        (ans = Data d \<and> (field ''suggestions'' d = None \<or> field ''suggestions'' d = Some (JArr [])))"
    using that by (auto simp: generateSmartSuggestions_def)
  show "genericSuggestions =
     JArr [JStr ''Show me a bar chart of the data'',
           JStr ''Create a line chart showing trends'',
           JStr ''Display a pie chart distribution'',
           JStr ''Generate a scatter plot'']"
    by (simp add: genericSuggestions_def)
qed

theorem suggestions_from_service_or_generic_witness:
  "field ''suggestions'' clarification_payload = Some (JArr [JStr ''Plot revenue by month'']) \<and>
   generateSmartSuggestions (Some ''sales.csv'') (Data clarification_payload) =
     Some (JArr [JStr ''Plot revenue by month'']) \<and>
   field ''suggestions'' graph_payload = None \<and>
   generateSmartSuggestions (Some ''sales.csv'') (Data graph_payload) = Some genericSuggestions"
proof -
  have h1: "field ''suggestions'' clarification_payload = Some (JArr [JStr ''Plot revenue by month''])"
    by (simp add: clarification_payload_def)
  have h2: "field ''suggestions'' graph_payload = None"
    by (simp add: graph_payload_def)
  show ?thesis
    using h1 h2
      suggestions_from_service_or_generic[of "''sales.csv''" "Data clarification_payload"
         clarification_payload "JStr ''Plot revenue by month''" "[]"]
      suggestions_from_service_or_generic[of "''sales.csv''" "Data graph_payload" graph_payload JNull "[]"]
    by simp
qed


section \<open>Properties of the quality gate\<close>

text \<open>
  C7. When every column profile has exactly one distinct value, \<^verbatim>\<open>checkQuality\<close> is
  blocking and its issues contain \<^verbatim>\<open>AllColumnsConstant\<close>, for every query, table and
  configuration.
\<close>

theorem all_constant_columns_block:
  assumes "\<forall>p \<in> set ps. distinctCount p = 1"
  shows "snd (checkQuality cfg t ps q) \<and> AllColumnsConstant \<in> set (fst (checkQuality cfg t ps q))"
proof -
  from assms have "list_all (\<lambda>p. distinctCount p = 1) ps"
    by (simp add: list_all_iff)
  then have "AllColumnsConstant \<in> set (fst (checkQuality cfg t ps q))"
    by (simp add: checkQuality_def Let_def)
  moreover have "is_blocking AllColumnsConstant"
    by simp
  ultimately show ?thesis
    by (auto simp: checkQuality_def Let_def list_ex_iff)
qed

theorem all_constant_columns_block_witness:
  "map distinctCount constant_profiles = [1, 1] \<and>
   checkQuality default_config constant_table constant_profiles ''plot this'' =
     ([AllColumnsConstant, TooManyMissing ''sales'' (2 / 3)], True)"
proof -
  have h: "\<forall>p \<in> set constant_profiles. distinctCount p = 1"
    by (simp add: constant_profiles_def)
  have v: "checkQuality default_config constant_table constant_profiles ''plot this'' =
     ([AllColumnsConstant, TooManyMissing ''sales'' (2 / 3)], True)"
    by (simp add: checkQuality_def default_config_def constant_table_def constant_profiles_def row_count_def)
  have d: "map distinctCount constant_profiles = [1, 1]"
    by (simp add: constant_profiles_def)
  show ?thesis
    using d v all_constant_columns_block[OF h, of default_config constant_table "''plot this''"]
    by simp
qed

end
